theory Spec2Isabelle
  imports Complex_Main "HOL-Library.AList" "HOL-Library.Sublist" "HOL-Library.Multiset"
    "HOL-Library.Log_Nat"
begin

section \<open>Okis expense planner: shallow embedding of Main.py\<close>

text \<open>
  The development embeds the classes \<^verbatim>\<open>Category\<close>, \<^verbatim>\<open>Expense\<close> and
  \<^verbatim>\<open>ExpensePlanner\<close> of \<^verbatim>\<open>src/Main.py\<close>.

  Conventions of the embedding:
  \<^item> Amounts and budgets are Python floats in the source.  The functions are polymorphic in
    the type \<open>'a\<close> of amounts and use only the operations the source applies to them
    (\<open>0\<close>, \<open>+\<close>, \<open>-\<close>, \<open>/\<close> and the comparisons), each function under the type classes
    of the operations it uses.  Two instances matter: exact numbers (\<^typ>\<open>real\<close>) and
    the floats themselves (the type \<open>double\<close> below, whose addition rounds).
  \<^item> A Python \<^verbatim>\<open>str\<close> is a \<^typ>\<open>string\<close>; a character stands for a code point below 256.
  \<^item> Every \<^verbatim>\<open>raise ValueError(msg)\<close> is a constructor of \<open>error\<close>, one per message.
  \<^item> \<^verbatim>\<open>date.today()\<close> and \<^verbatim>\<open>uuid.uuid4()\<close> read the clock and the random source; the
    value each call returns is an explicit argument (\<open>today\<close>, and \<open>uuid4\<close> for the 128-bit
    integer of the UUID).
  \<^item> An argument that Python may receive as \<^verbatim>\<open>None\<close> is an \<^typ>\<open>'a option\<close>.
\<close>

subsection \<open>Errors\<close>

datatype error =
    DescriptionEmpty      \<comment> \<open>ValueError("Description cannot be empty")\<close>
  | AmountNotPositive     \<comment> \<open>ValueError("Amount must be positive")\<close>
  | InvalidCategory       \<comment> \<open>ValueError("Invalid category")\<close>
  | FutureDate            \<comment> \<open>ValueError("Expense date cannot be in the future")\<close>
  | EmptyId               \<comment> \<open>ValueError("Expense ID cannot be empty")\<close>
  | NegativeBudget        \<comment> \<open>ValueError("Budget cannot be negative")\<close>
  | DatesNone             \<comment> \<open>ValueError("Dates cannot be None")\<close>
  | StartAfterEnd         \<comment> \<open>ValueError("Start date cannot be after end date")\<close>
  | MonthNotInRange       \<comment> \<open>ValueError("Month must be between 1 and 12")\<close>
  | LimitNotPositive      \<comment> \<open>ValueError("Limit must be positive")\<close>
  | DateYearOutOfRange int  \<comment> \<open>datetime: ValueError("year %i is out of range")\<close>
  | DateMonthOutOfRange   \<comment> \<open>datetime: ValueError("month must be in 1..12")\<close>
  | DateDayOutOfRange     \<comment> \<open>datetime: ValueError("day is out of range for month")\<close>
  | KeyError              \<comment> \<open>dict lookup of a missing key\<close>
  | AttributeError        \<comment> \<open>a method called on an object that is not a planner\<close>

subsection \<open>Category (lines 7-14)\<close>

datatype category = FOOD | TRANSPORT | ENTERTAINMENT | UTILITIES | HEALTH | EDUCATION | OTHER

text \<open>Iteration order of \<^verbatim>\<open>for category in Category\<close>: definition order.\<close>

definition all_categories :: "category list" where
  "all_categories = [FOOD, TRANSPORT, ENTERTAINMENT, UTILITIES, HEALTH, EDUCATION, OTHER]"

text \<open>
  A value passed where a category is expected: a member of the enumeration, or any other
  object (for which \<^verbatim>\<open>isinstance(category, Category)\<close> is false).
\<close>

datatype category_value = Member category | NonMember

subsection \<open>Calendar dates of the standard library\<close>

text \<open>
  \<^verbatim>\<open>datetime.date\<close> is a triple (year, month, day), compared lexicographically.  The
  constructor and \<^verbatim>\<open>replace\<close> validate their fields in the order year, month, day and raise
  \<^verbatim>\<open>ValueError\<close> on the first one out of range.
\<close>

datatype date = Date (year: int) (month: int) (day: int)

instantiation date :: linorder
begin

definition less_eq_date :: "date \<Rightarrow> date \<Rightarrow> bool" where
  "less_eq_date a b \<longleftrightarrow>
     year a < year b \<or> (year a = year b \<and> (month a < month b \<or> (month a = month b \<and> day a \<le> day b)))"

definition less_date :: "date \<Rightarrow> date \<Rightarrow> bool" where
  "less_date a b \<longleftrightarrow>
     year a < year b \<or> (year a = year b \<and> (month a < month b \<or> (month a = month b \<and> day a < day b)))"

instance
proof
  fix x y z :: date
  show "x < y \<longleftrightarrow> x \<le> y \<and> \<not> y \<le> x"
    by (auto simp: less_eq_date_def less_date_def)
  show "x \<le> x"
    by (simp add: less_eq_date_def)
  show "x \<le> y \<Longrightarrow> y \<le> z \<Longrightarrow> x \<le> z"
    by (auto simp: less_eq_date_def)
  show "x \<le> y \<Longrightarrow> y \<le> x \<Longrightarrow> x = y"
    by (cases x; cases y) (auto simp: less_eq_date_def)
  show "x \<le> y \<or> y \<le> x"
    by (auto simp: less_eq_date_def)
qed

end

definition is_leap :: "int \<Rightarrow> bool" where
  "is_leap y \<longleftrightarrow> y mod 4 = 0 \<and> (y mod 100 \<noteq> 0 \<or> y mod 400 = 0)"

definition days_in_month :: "int \<Rightarrow> int \<Rightarrow> int" where
  "days_in_month y m =
     (if m = 2 then (if is_leap y then 29 else 28)
      else if m = 4 \<or> m = 6 \<or> m = 9 \<or> m = 11 then 30 else 31)"

text \<open>\<^verbatim>\<open>date(year, month, day)\<close>; MINYEAR = 1, MAXYEAR = 9999.\<close>

definition date_new :: "int \<Rightarrow> int \<Rightarrow> int \<Rightarrow> error + date" where
  "date_new y m d =
     (if \<not> (1 \<le> y \<and> y \<le> 9999) then Inl (DateYearOutOfRange y)
      else if \<not> (1 \<le> m \<and> m \<le> 12) then Inl DateMonthOutOfRange
      else if \<not> (1 \<le> d \<and> d \<le> days_in_month y m) then Inl DateDayOutOfRange
      else Inr (Date y m d))"

text \<open>\<^verbatim>\<open>dt.replace(day=d)\<close>: a new date from the fields of \<open>dt\<close> with the day replaced.\<close>

definition replace_day :: "date \<Rightarrow> int \<Rightarrow> error + date" where
  "replace_day dt d = date_new (year dt) (month dt) d"

subsection \<open>Strings\<close>

text \<open>
  \<^verbatim>\<open>str.isspace\<close> on code points below 256: TAB, LF, VT, FF, CR, FS, GS, RS, US, SPACE,
  NEL (0x85) and NBSP (0xA0).  \<^verbatim>\<open>str.strip()\<close> removes them at both ends.
\<close>

definition isspace :: "char \<Rightarrow> bool" where
  "isspace c \<longleftrightarrow> (of_char c :: nat) \<in> {9, 10, 11, 12, 13, 28, 29, 30, 31, 32, 133, 160}"

definition strip :: "string \<Rightarrow> string" where
  "strip s = rev (dropWhile isspace (rev (dropWhile isspace s)))"

subsection \<open>Floats\<close>

text \<open>
  A Python float is an IEEE-754 binary64 number.  A finite one is identified with the
  rational number it denotes: \<open>m * 2\<^sup>e\<close> with an integer \<open>\<bar>m\<bar> < 2\<^sup>5\<^sup>3\<close> and \<open>e \<ge> -1074\<close>.
  An arithmetic operation returns the float nearest to the exact result, a tie going to
  the even \<open>m\<close>.  Infinities, NaN, overflow to an infinity and the sign of zero are outside
  the model.
\<close>

text \<open>
  \<open>binade x\<close> is the \<open>e\<close> with \<open>2\<^sup>e \<le> \<bar>x\<bar> < 2\<^sup>e\<^sup>+\<^sup>1\<close>, for \<open>x \<noteq> 0\<close>; \<^const>\<open>bitlen\<close> is the
  number of binary digits of a positive integer.
\<close>

definition binade :: "rat \<Rightarrow> int" where
  "binade x =
     (if 1 \<le> \<bar>x\<bar> then bitlen \<lfloor>\<bar>x\<bar>\<rfloor> - 1
      else - bitlen (\<lceil>1 / \<bar>x\<bar>\<rceil> - 1))"

definition pow2 :: "int \<Rightarrow> rat" where
  "pow2 e = (if 0 \<le> e then 2 ^ nat e else 1 / 2 ^ nat (- e))"

definition round_half_even :: "rat \<Rightarrow> int" where
  "round_half_even q =
     (let f = \<lfloor>q\<rfloor>; r = q - of_int f
      in if r < 1 / 2 then f else if 1 / 2 < r then f + 1 else if even f then f else f + 1)"

text \<open>The float nearest to \<open>x\<close>: \<open>x\<close> rounded to a multiple of the spacing of its binade.\<close>

definition round_double :: "rat \<Rightarrow> rat" where
  "round_double x =
     (if x = 0 then 0
      else let ulp = pow2 (max (binade x - 52) (- 1074))
           in of_int (round_half_even (x / ulp)) * ulp)"

datatype double = Double (exact: rat)

instantiation double :: "{zero, plus, minus, linorder}"
begin

definition zero_double :: double where
  "zero_double = Double 0"

definition plus_double :: "double \<Rightarrow> double \<Rightarrow> double" where
  "plus_double a b = Double (round_double (exact a + exact b))"

definition minus_double :: "double \<Rightarrow> double \<Rightarrow> double" where
  "minus_double a b = Double (round_double (exact a - exact b))"

definition less_eq_double :: "double \<Rightarrow> double \<Rightarrow> bool" where
  "less_eq_double a b \<longleftrightarrow> exact a \<le> exact b"

definition less_double :: "double \<Rightarrow> double \<Rightarrow> bool" where
  "less_double a b \<longleftrightarrow> exact a < exact b"

instance
proof
  fix x y z :: double
  show "x < y \<longleftrightarrow> x \<le> y \<and> \<not> y \<le> x"
    by (auto simp: less_eq_double_def less_double_def)
  show "x \<le> x"
    by (simp add: less_eq_double_def)
  show "x \<le> y \<Longrightarrow> y \<le> z \<Longrightarrow> x \<le> z"
    by (simp add: less_eq_double_def)
  show "x \<le> y \<Longrightarrow> y \<le> x \<Longrightarrow> x = y"
    by (cases x; cases y) (simp add: less_eq_double_def)
  show "x \<le> y \<or> y \<le> x"
    by (auto simp: less_eq_double_def)
qed

end

text \<open>A float literal such as \<^verbatim>\<open>0.1\<close>: the float nearest to the decimal.\<close>

definition float_literal :: "rat \<Rightarrow> double" where
  "float_literal q = Double (round_double q)"

subsection \<open>UUIDs of the standard library\<close>

text \<open>
  \<^verbatim>\<open>str(u)\<close> of a \<^verbatim>\<open>uuid.UUID\<close> writes the 128-bit integer of \<open>u\<close> as 32 lower-case
  hexadecimal digits, in groups of 8, 4, 4, 4 and 12 joined by hyphens.
\<close>

definition hex_digit :: "nat \<Rightarrow> char" where
  "hex_digit d = ''0123456789abcdef'' ! (d mod 16)"

fun hex_digits :: "nat \<Rightarrow> nat \<Rightarrow> string" where
  "hex_digits 0 k = []"
| "hex_digits (Suc n) k = hex_digits n (k div 16) @ [hex_digit k]"

definition uuid_str :: "nat \<Rightarrow> string" where
  "uuid_str u =
     (let h = hex_digits 32 u
      in take 8 h @ ''-'' @ take 4 (drop 8 h) @ ''-'' @ take 4 (drop 12 h) @ ''-''
         @ take 4 (drop 16 h) @ ''-'' @ drop 20 h)"

subsection \<open>Expense (lines 17-35)\<close>

record 'a expense =
  id' :: string
  description :: string
  amount :: 'a
  category :: category
  date :: date

text \<open>
  \<^verbatim>\<open>Expense.__init__\<close>.  The four checks run in the order of the source; \<open>today\<close> is what
  \<^verbatim>\<open>date.today()\<close> returns and \<open>uuid4\<close> the integer of what \<^verbatim>\<open>uuid.uuid4()\<close> returns.
\<close>

definition Expense_init ::
  "nat \<Rightarrow> date \<Rightarrow> string \<Rightarrow> 'a::{zero,ord} \<Rightarrow> category_value \<Rightarrow> date \<Rightarrow> error + 'a expense" where
  "Expense_init uuid4 today descr amt cat expense_date =
     (if descr = [] \<or> strip descr = [] then Inl DescriptionEmpty
      else if amt \<le> 0 then Inl AmountNotPositive
      else case cat of
        NonMember \<Rightarrow> Inl InvalidCategory
      | Member c \<Rightarrow>
          if expense_date > today then Inl FutureDate
          else Inr \<lparr>id' = uuid_str uuid4, description = strip descr, amount = amt,
                    category = c, date = expense_date\<rparr>)"

subsection \<open>ExpensePlanner (lines 38-260)\<close>

text \<open>
  The three attributes \<^verbatim>\<open>_expenses\<close>, \<^verbatim>\<open>_category_budgets\<close> and \<^verbatim>\<open>_monthly_budget\<close>.
  A method that assigns to an attribute returns the planner after the call next to its
  result; a method that only reads returns its result.
\<close>

record 'a planner =
  p_expenses :: "'a expense list"
  p_category_budgets :: "category \<rightharpoonup> 'a"
  p_monthly_budget :: 'a

text \<open>\<^verbatim>\<open>_initialize_category_budgets\<close>: the loop over the enumeration.\<close>

definition initialize_category_budgets :: "'a::zero planner \<Rightarrow> 'a planner" where
  "initialize_category_budgets s =
     foldl (\<lambda>s c. s\<lparr>p_category_budgets := (p_category_budgets s)(c \<mapsto> 0)\<rparr>) s all_categories"

definition ExpensePlanner_init :: "'a::zero planner" where
  "ExpensePlanner_init =
     initialize_category_budgets
       \<lparr>p_expenses = [], p_category_budgets = Map.empty, p_monthly_budget = 0\<rparr>"

definition add_expense ::
  "nat \<Rightarrow> date \<Rightarrow> 'a::{zero,ord} planner \<Rightarrow> string \<Rightarrow> 'a \<Rightarrow> category_value \<Rightarrow> date
     \<Rightarrow> (error + string) \<times> 'a planner" where
  "add_expense uuid4 today s descr amt cat expense_date =
     (case Expense_init uuid4 today descr amt cat expense_date of
        Inl e \<Rightarrow> (Inl e, s)
      | Inr ex \<Rightarrow> (Inr (id' ex), s\<lparr>p_expenses := p_expenses s @ [ex]\<rparr>))"

text \<open>\<^verbatim>\<open>not expense_id\<close> holds for \<^verbatim>\<open>None\<close> and for the empty string.\<close>

definition remove_expense :: "'a planner \<Rightarrow> string option \<Rightarrow> (error + bool) \<times> 'a planner" where
  "remove_expense s expense_id =
     (case expense_id of
        None \<Rightarrow> (Inl EmptyId, s)
      | Some i \<Rightarrow>
          if i = [] then (Inl EmptyId, s)
          else
            let initial_count = length (p_expenses s);
                s' = s\<lparr>p_expenses := filter (\<lambda>exp. id' exp \<noteq> i) (p_expenses s)\<rparr>
            in (Inr (length (p_expenses s') < initial_count), s'))"

definition set_monthly_budget ::
  "'a::{zero,ord} planner \<Rightarrow> 'a \<Rightarrow> (error + unit) \<times> 'a planner" where
  "set_monthly_budget s budget =
     (if budget < 0 then (Inl NegativeBudget, s)
      else (Inr (), s\<lparr>p_monthly_budget := budget\<rparr>))"

definition set_category_budget ::
  "'a::{zero,ord} planner \<Rightarrow> category_value \<Rightarrow> 'a \<Rightarrow> (error + unit) \<times> 'a planner" where
  "set_category_budget s cat budget =
     (case cat of
        NonMember \<Rightarrow> (Inl InvalidCategory, s)
      | Member c \<Rightarrow>
          if budget < 0 then (Inl NegativeBudget, s)
          else (Inr (), s\<lparr>p_category_budgets := (p_category_budgets s)(c \<mapsto> budget)\<rparr>))"

text \<open>
  \<^verbatim>\<open>get_total_expenses\<close>: the accumulating loop of lines 130-133, then the method.
\<close>

fun total_loop :: "date \<Rightarrow> date \<Rightarrow> 'a::plus \<Rightarrow> 'a expense list \<Rightarrow> 'a" where
  "total_loop start_date end_date tot [] = tot"
| "total_loop start_date end_date tot (e # es) =
     total_loop start_date end_date
       (if start_date \<le> date e \<and> date e \<le> end_date then tot + amount e else tot) es"

definition get_total_expenses ::
  "'a::{zero,plus} planner \<Rightarrow> date option \<Rightarrow> date option \<Rightarrow> error + 'a" where
  "get_total_expenses s start_date end_date =
     (case (start_date, end_date) of
        (Some a, Some b) \<Rightarrow>
          if a > b then Inl StartAfterEnd else Inr (total_loop a b 0 (p_expenses s))
      | _ \<Rightarrow> Inl DatesNone)"

text \<open>\<^verbatim>\<open>get_expenses_by_category\<close> (lines 136-149).\<close>

definition get_expenses_by_category ::
  "'a planner \<Rightarrow> category_value \<Rightarrow> error + 'a expense list" where
  "get_expenses_by_category s cat =
     (case cat of
        NonMember \<Rightarrow> Inl InvalidCategory
      | Member c \<Rightarrow> Inr (filter (\<lambda>exp. category exp = c) (p_expenses s)))"

text \<open>
  \<^verbatim>\<open>get_remaining_monthly_budget\<close> (lines 151-174).  Each call that can raise is a
  \<open>case\<close> on its result; the first error ends the method.
\<close>

definition month_end_date :: "int \<Rightarrow> int \<Rightarrow> error + date" where
  "month_end_date y m =
     (if m = 12 then date_new y m 31
      else case date_new y (m + 1) 1 of
             Inl e \<Rightarrow> Inl e
           | Inr end_date \<Rightarrow> replace_day end_date (day end_date - 1))"

definition get_remaining_monthly_budget ::
  "'a::{zero,plus,minus} planner \<Rightarrow> int \<Rightarrow> int \<Rightarrow> error + 'a" where
  "get_remaining_monthly_budget s y m =
     (if \<not> (1 \<le> m \<and> m \<le> 12) then Inl MonthNotInRange
      else case date_new y m 1 of
        Inl e \<Rightarrow> Inl e
      | Inr start_date \<Rightarrow>
          (case month_end_date y m of
             Inl e \<Rightarrow> Inl e
           | Inr end_date \<Rightarrow>
               (case get_total_expenses s (Some start_date) (Some end_date) of
                  Inl e \<Rightarrow> Inl e
                | Inr total_expenses \<Rightarrow> Inr (p_monthly_budget s - total_expenses))))"

text \<open>The builtin \<^verbatim>\<open>sum\<close>: a left fold from 0.\<close>

definition py_sum :: "'a::{zero,plus} list \<Rightarrow> 'a" where
  "py_sum xs = foldl (+) 0 xs"

text \<open>
  \<^verbatim>\<open>is_category_budget_exceeded\<close> (lines 176-194).  \<^verbatim>\<open>self._category_budgets[category]\<close>
  raises \<^verbatim>\<open>KeyError\<close> on a key that is not stored.
\<close>

definition is_category_budget_exceeded ::
  "'a::{zero,plus,ord} planner \<Rightarrow> category_value \<Rightarrow> error + bool" where
  "is_category_budget_exceeded s cat =
     (case cat of
        NonMember \<Rightarrow> Inl InvalidCategory
      | Member c \<Rightarrow>
          (case p_category_budgets s c of
             None \<Rightarrow> Inl KeyError
           | Some category_budget \<Rightarrow>
               if category_budget = 0 then Inr False
               else case get_expenses_by_category s cat of
                      Inl e \<Rightarrow> Inl e
                    | Inr xs \<Rightarrow> Inr (py_sum (map amount xs) > category_budget)))"

text \<open>
  \<^verbatim>\<open>get_category_statistics\<close> (lines 196-214).  The result dictionary keeps its keys in
  insertion order: it is an association list, \<^verbatim>\<open>d[k] = v\<close> overwrites the value of a stored
  key in place and appends a new key (\<^const>\<open>AList.update\<close>), \<^verbatim>\<open>d.get(k, 0.0)\<close> reads it.
\<close>

definition dict_get :: "('k \<times> 'v) list \<Rightarrow> 'k \<Rightarrow> 'v \<Rightarrow> 'v" where
  "dict_get d k dflt = (case map_of d k of None \<Rightarrow> dflt | Some v \<Rightarrow> v)"

fun statistics_loop ::
  "date \<Rightarrow> date \<Rightarrow> (category \<times> 'a::{zero,plus}) list \<Rightarrow> 'a expense list
     \<Rightarrow> (category \<times> 'a) list" where
  "statistics_loop start_date end_date statistics [] = statistics"
| "statistics_loop start_date end_date statistics (e # es) =
     statistics_loop start_date end_date
       (if start_date \<le> date e \<and> date e \<le> end_date
        then AList.update (category e) (dict_get statistics (category e) 0 + amount e) statistics
        else statistics) es"

definition get_category_statistics ::
  "'a::{zero,plus} planner \<Rightarrow> date option \<Rightarrow> date option \<Rightarrow> error + (category \<times> 'a) list" where
  "get_category_statistics s start_date end_date =
     (case (start_date, end_date) of
        (Some a, Some b) \<Rightarrow> Inr (statistics_loop a b [] (p_expenses s))
      | _ \<Rightarrow> Inl DatesNone)"

text \<open>
  \<^verbatim>\<open>get_top_expenses\<close> (lines 216-230).  \<^verbatim>\<open>sorted(xs, key=k, reverse=True)\<close> is a stable sort:
  the list is reversed, sorted stably in ascending key order, and reversed again.  The
  stable ascending sort is \<^const>\<open>sort_key\<close>.  The slice \<^verbatim>\<open>[:limit]\<close> with a positive limit
  keeps the first \<open>limit\<close> elements.
\<close>

definition sorted_reverse :: "('b \<Rightarrow> 'a::linorder) \<Rightarrow> 'b list \<Rightarrow> 'b list" where
  "sorted_reverse k xs = rev (sort_key k (rev xs))"

definition get_top_expenses :: "'a::linorder planner \<Rightarrow> int \<Rightarrow> error + 'a expense list" where
  "get_top_expenses s limit =
     (if limit \<le> 0 then Inl LimitNotPositive
      else let sorted_expenses = sorted_reverse amount (p_expenses s)
           in Inr (take (nat limit) sorted_expenses))"

text \<open>
  \<^verbatim>\<open>get_expenses_summary\<close> (lines 232-248): the five entries of the returned dictionary.
  The division by \<^verbatim>\<open>len(self._expenses)\<close> is taken in a field.
\<close>

record 'a summary =
  total_expenses :: 'a
  expense_count :: nat
  average_expense :: 'a
  monthly_budget :: 'a
  category_budgets :: "category \<rightharpoonup> 'a"



subsection \<open>The object store: what the reading methods return\<close>












subsection \<open>Planners for concrete instances\<close>

text \<open>A planner with four expenses, over exact numbers.\<close>

definition example_planner :: "real planner" where
  "example_planner =
     \<lparr>p_expenses =
        [\<lparr>id' = ''a1'', description = ''Lunch'', amount = 25, category = FOOD, date = Date 2024 3 10\<rparr>,
         \<lparr>id' = ''b2'', description = ''Bus'', amount = 5, category = TRANSPORT, date = Date 2024 3 11\<rparr>,
         \<lparr>id' = ''c3'', description = ''Dinner'', amount = 35, category = FOOD, date = Date 2024 3 11\<rparr>,
         \<lparr>id' = ''d4'', description = ''Movie'', amount = 5, category = ENTERTAINMENT, date = Date 2024 12 20\<rparr>],
      p_category_budgets = (\<lambda>c. Some (if c = FOOD then 50 else 0)),
      p_monthly_budget = 1500\<rparr>"



section \<open>Properties\<close>

subsection \<open>Sums, dates and the two loops\<close>

lemma date_simps:
  "Date y m d \<le> Date y' m' d' \<longleftrightarrow> y < y' \<or> (y = y' \<and> (m < m' \<or> (m = m' \<and> d \<le> d')))"
  "Date y m d < Date y' m' d' \<longleftrightarrow> y < y' \<or> (y = y' \<and> (m < m' \<or> (m = m' \<and> d < d')))"
  by (simp_all add: less_eq_date_def less_date_def)



lemma py_sum_Nil: "py_sum [] = 0"
  by (simp add: py_sum_def)

text \<open>The loop of \<^verbatim>\<open>get_total_expenses\<close> adds the amounts in range in stored order.\<close>

lemma total_loop_foldl:
  "total_loop a b t es = foldl (+) t (map amount (filter (\<lambda>e. a \<le> date e \<and> date e \<le> b) es))"
  by (induction es arbitrary: t) simp_all

lemma get_total_expenses_py_sum:
  "\<not> b < a \<Longrightarrow>
   get_total_expenses s (Some a) (Some b) =
     Inr (py_sum (map amount (filter (\<lambda>e. a \<le> date e \<and> date e \<le> b) (p_expenses s))))"
  by (simp add: get_total_expenses_def total_loop_foldl py_sum_def)

subsection \<open>C3: total of a date range\<close>

text \<open>
  Claim C3.  \<^verbatim>\<open>get_total_expenses(start, end)\<close> fails with "Dates cannot be None" when either
  bound is absent and with "Start date cannot be after end date" when start > end;
  otherwise it returns the sum of the amounts of the stored expenses whose date d
  satisfies start \<le> d \<le> end (added in stored order, as \<^verbatim>\<open>sum\<close> does), which is 0 when no
  expense matches.
\<close>

theorem C3_get_total_expenses:
  "get_total_expenses s None end_date = Inl DatesNone
   \<and> get_total_expenses s start_date None = Inl DatesNone
   \<and> (a > b \<longrightarrow> get_total_expenses s (Some a) (Some b) = Inl StartAfterEnd)
   \<and> (a \<le> b \<longrightarrow>
        get_total_expenses s (Some a) (Some b) =
          Inr (py_sum (map amount (filter (\<lambda>e. a \<le> date e \<and> date e \<le> b) (p_expenses s)))))
   \<and> (a \<le> b \<and> (\<forall>e \<in> set (p_expenses s). \<not> (a \<le> date e \<and> date e \<le> b)) \<longrightarrow>
        get_total_expenses s (Some a) (Some b) = Inr 0)"
proof -
  have none: "(\<forall>e \<in> set (p_expenses s). \<not> (a \<le> date e \<and> date e \<le> b)) \<Longrightarrow>
      filter (\<lambda>e. a \<le> date e \<and> date e \<le> b) (p_expenses s) = []"
    by (simp add: filter_empty_conv)
  have ok: "a \<le> b \<Longrightarrow> get_total_expenses s (Some a) (Some b) =
          Inr (py_sum (map amount (filter (\<lambda>e. a \<le> date e \<and> date e \<le> b) (p_expenses s))))"
    by (rule get_total_expenses_py_sum) simp
  have "get_total_expenses s None end_date = Inl DatesNone"
    "get_total_expenses s start_date None = Inl DatesNone"
    "a > b \<Longrightarrow> get_total_expenses s (Some a) (Some b) = Inl StartAfterEnd"
    by (simp_all add: get_total_expenses_def split: option.splits)
  moreover have "a \<le> b \<Longrightarrow> (\<forall>e \<in> set (p_expenses s). \<not> (a \<le> date e \<and> date e \<le> b)) \<Longrightarrow>
      get_total_expenses s (Some a) (Some b) = Inr 0"
    by (simp only: ok none list.map py_sum_Nil)
  ultimately show ?thesis using ok by blast
qed

theorem C3_get_total_expenses_witness:
  "get_total_expenses example_planner None (Some (Date 2024 3 11)) = Inl DatesNone
   \<and> get_total_expenses example_planner (Some (Date 2024 3 11)) None = Inl DatesNone
   \<and> get_total_expenses example_planner (Some (Date 2024 3 12)) (Some (Date 2024 3 11)) = Inl StartAfterEnd
   \<and> get_total_expenses example_planner (Some (Date 2024 3 11)) (Some (Date 2024 3 31)) = Inr 40
   \<and> get_total_expenses example_planner (Some (Date 2024 4 1)) (Some (Date 2024 4 30)) = Inr 0"
  using C3_get_total_expenses [where s = example_planner and end_date = "Some (Date 2024 3 11)"
      and start_date = "Some (Date 2024 3 11)" and a = "Date 2024 3 12" and b = "Date 2024 3 11"]
    C3_get_total_expenses [where s = example_planner and a = "Date 2024 3 11" and b = "Date 2024 3 31"]
    C3_get_total_expenses [where s = example_planner and a = "Date 2024 4 1" and b = "Date 2024 4 30"]
  by (simp add: example_planner_def date_simps py_sum_def)

subsection \<open>C1: remaining monthly budget\<close>

text \<open>
  The month's last day is computed, for every month but December, as the first day of the
  next month with its day replaced by \<open>day - 1 = 0\<close>, which \<^verbatim>\<open>date.replace\<close> rejects.
\<close>

lemma date_new_first:
  "date_new y m 1 =
     (if \<not> (1 \<le> y \<and> y \<le> 9999) then Inl (DateYearOutOfRange y)
      else if \<not> (1 \<le> m \<and> m \<le> 12) then Inl DateMonthOutOfRange else Inr (Date y m 1))"
  by (simp add: date_new_def days_in_month_def)

lemma month_end_date_before_december:
  "1 \<le> m \<Longrightarrow> m \<le> 11 \<Longrightarrow>
   month_end_date y m = Inl (if 1 \<le> y \<and> y \<le> 9999 then DateDayOutOfRange else DateYearOutOfRange y)"
  by (simp add: month_end_date_def date_new_first replace_day_def) (simp add: date_new_def)

lemma get_remaining_monthly_budget_before_december:
  "1 \<le> m \<Longrightarrow> m \<le> 11 \<Longrightarrow>
   get_remaining_monthly_budget s y m =
     Inl (if 1 \<le> y \<and> y \<le> 9999 then DateDayOutOfRange else DateYearOutOfRange y)"
  by (simp add: get_remaining_monthly_budget_def month_end_date_before_december date_new_first)

lemma get_remaining_monthly_budget_december:
  "1 \<le> y \<Longrightarrow> y \<le> 9999 \<Longrightarrow>
   get_remaining_monthly_budget s y 12 =
     Inr (p_monthly_budget s -
          py_sum (map amount
            (filter (\<lambda>e. Date y 12 1 \<le> date e \<and> date e \<le> Date y 12 31) (p_expenses s))))"
  by (simp add: get_remaining_monthly_budget_def month_end_date_def date_new_def days_in_month_def
      get_total_expenses_py_sum date_simps)

lemma get_remaining_monthly_budget_bad_month:
  "m < 1 \<or> 12 < m \<Longrightarrow> get_remaining_monthly_budget s y m = Inl MonthNotInRange"
  by (auto simp add: get_remaining_monthly_budget_def)

text \<open>
  Claim C1.  The claim says that \<^verbatim>\<open>get_remaining_monthly_budget(year, month)\<close> returns the
  monthly budget minus the month's expenses for every month from 1 to 12.  The method
  raises "day is out of range for month" instead when the month is not December: here
  for January 2024, whatever the planner holds.
\<close>

theorem C1_get_remaining_monthly_budget_january:
  "get_remaining_monthly_budget s 2024 1 = Inl DateDayOutOfRange"
  by (simp add: get_remaining_monthly_budget_before_december)

subsection \<open>C2: statistics by category\<close>

lemma statistics_loop_distinct:
  "distinct (map fst st) \<Longrightarrow> distinct (map fst (statistics_loop a b st es))"
  by (induction es arbitrary: st) (simp_all add: distinct_update)

lemma dict_get_update:
  "dict_get (AList.update k v st) c dflt = (if c = k then v else dict_get st c dflt)"
  by (simp add: dict_get_def update_conv')

text \<open>The value of a key: what was stored, plus the key's amounts in range in stored order.\<close>

lemma statistics_loop_map_of:
  "map_of (statistics_loop a b st es) c =
     (if \<exists>e\<in>set es. a \<le> date e \<and> date e \<le> b \<and> category e = c
      then Some (foldl (+) (dict_get st c 0)
                  (map amount (filter (\<lambda>e. a \<le> date e \<and> date e \<le> b \<and> category e = c) es)))
      else map_of st c)"
proof (induction es arbitrary: st)
  case Nil
  then show ?case by simp
next
  case (Cons e es)
  let ?P = "\<lambda>e. a \<le> date e \<and> date e \<le> b \<and> category e = c"
  show ?case
  proof (cases "a \<le> date e \<and> date e \<le> b")
    case False
    then show ?thesis by (auto simp: Cons.IH)
  next
    case inr: True
    let ?st = "AList.update (category e) (dict_get st (category e) 0 + amount e) st"
    have step: "statistics_loop a b st (e # es) = statistics_loop a b ?st es"
      using inr by simp
    show ?thesis
    proof (cases "category e = c")
      case False
      then have "dict_get ?st c 0 = dict_get st c 0" "map_of ?st c = map_of st c"
        by (auto simp: dict_get_update update_conv')
      then show ?thesis using False inr by (auto simp: step Cons.IH)
    next
      case True
      let ?st' = "AList.update c (dict_get st c 0 + amount e) st"
      have step': "statistics_loop a b st (e # es) = statistics_loop a b ?st' es"
        using inr True by simp
      have g: "dict_get ?st' c 0 = dict_get st c 0 + amount e"
        and m: "map_of ?st' c = Some (dict_get st c 0 + amount e)"
        by (simp_all add: dict_get_update update_conv')
      show ?thesis
      proof (cases "\<exists>e\<in>set es. ?P e")
        case True
        then show ?thesis using \<open>category e = c\<close> inr by (auto simp: step' Cons.IH g)
      next
        case False
        then have "filter ?P es = []" by (simp add: filter_empty_conv)
        then show ?thesis using False \<open>category e = c\<close> inr by (auto simp: step' Cons.IH m g)
      qed
    qed
  qed
qed

lemma statistics_loop_empty_map_of:
  "map_of (statistics_loop a b [] es) c =
     (if \<exists>e\<in>set es. a \<le> date e \<and> date e \<le> b \<and> category e = c
      then Some (py_sum (map amount (filter (\<lambda>e. a \<le> date e \<and> date e \<le> b \<and> category e = c) es)))
      else None)"
  unfolding statistics_loop_map_of dict_get_def py_sum_def by auto

text \<open>
  Claim C2.  For two dates that are not \<^verbatim>\<open>None\<close>, \<^verbatim>\<open>get_category_statistics(start, end)\<close>
  returns normally, also when start > end (no ordering check is made; the result is then
  empty).  The keys of the returned dictionary are exactly the categories of the stored
  expenses with start \<le> date \<le> end, each mapped to the sum of the amounts of those
  expenses (added in stored order); a category with no such expense is not a key.
\<close>

theorem C2_get_category_statistics:
  "\<exists>m. get_category_statistics s (Some a) (Some b) = Inr m
     \<and> distinct (map fst m)
     \<and> fst ` set m = {c. \<exists>e \<in> set (p_expenses s). a \<le> date e \<and> date e \<le> b \<and> category e = c}
     \<and> (\<forall>c \<in> fst ` set m.
           map_of m c =
             Some (py_sum (map amount
               (filter (\<lambda>e. a \<le> date e \<and> date e \<le> b \<and> category e = c) (p_expenses s)))))
     \<and> (\<forall>c. c \<notin> fst ` set m \<longrightarrow> map_of m c = None)
     \<and> (b < a \<longrightarrow> m = [])"
proof -
  let ?m = "statistics_loop a b [] (p_expenses s)"
  have mo: "map_of ?m c =
      (if \<exists>e\<in>set (p_expenses s). a \<le> date e \<and> date e \<le> b \<and> category e = c
       then Some (py_sum (map amount
              (filter (\<lambda>e. a \<le> date e \<and> date e \<le> b \<and> category e = c) (p_expenses s))))
       else None)" for c
    by (rule statistics_loop_empty_map_of)
  have keys: "fst ` set ?m = {c. \<exists>e \<in> set (p_expenses s). a \<le> date e \<and> date e \<le> b \<and> category e = c}"
  proof -
    have "fst ` set ?m = dom (map_of ?m)" by (simp add: dom_map_of_conv_image_fst)
    also have "\<dots> = {c. \<exists>e \<in> set (p_expenses s). a \<le> date e \<and> date e \<le> b \<and> category e = c}"
      by (auto simp: dom_def mo)
    finally show ?thesis .
  qed
  have empty: "?m = []" if "b < a"
  proof -
    have "fst ` set ?m = {}" unfolding keys using that by auto
    then show ?thesis by simp
  qed
  have "get_category_statistics s (Some a) (Some b) = Inr ?m"
    by (simp add: get_category_statistics_def)
  moreover have "distinct (map fst ?m)"
    by (simp add: statistics_loop_distinct)
  moreover have "\<forall>c \<in> fst ` set ?m. map_of ?m c =
      Some (py_sum (map amount
        (filter (\<lambda>e. a \<le> date e \<and> date e \<le> b \<and> category e = c) (p_expenses s))))"
    unfolding keys by (auto simp: mo)
  moreover have "\<forall>c. c \<notin> fst ` set ?m \<longrightarrow> map_of ?m c = None"
    by (simp add: map_of_eq_None_iff)
  ultimately show ?thesis using keys empty by blast
qed

theorem C2_get_category_statistics_witness:
  "(\<exists>m. get_category_statistics example_planner (Some (Date 2024 3 11)) (Some (Date 2024 3 31)) = Inr m
      \<and> fst ` set m = {TRANSPORT, FOOD}
      \<and> map_of m FOOD = Some 35 \<and> map_of m TRANSPORT = Some 5 \<and> map_of m ENTERTAINMENT = None)
   \<and> get_category_statistics example_planner (Some (Date 2024 3 31)) (Some (Date 2024 3 11)) = Inr []"
proof -
  from C2_get_category_statistics [of example_planner "Date 2024 3 11" "Date 2024 3 31"]
  obtain m where m: "get_category_statistics example_planner (Some (Date 2024 3 11)) (Some (Date 2024 3 31)) = Inr m"
    and keys: "fst ` set m = {c. \<exists>e \<in> set (p_expenses example_planner).
                 Date 2024 3 11 \<le> date e \<and> date e \<le> Date 2024 3 31 \<and> category e = c}"
    and vals: "\<forall>c \<in> fst ` set m. map_of m c =
        Some (py_sum (map amount
          (filter (\<lambda>e. Date 2024 3 11 \<le> date e \<and> date e \<le> Date 2024 3 31 \<and> category e = c)
                 (p_expenses example_planner))))"
    and absent: "\<forall>c. c \<notin> fst ` set m \<longrightarrow> map_of m c = None"
    by blast
  have k: "fst ` set m = {TRANSPORT, FOOD}"
    unfolding keys by (auto simp: example_planner_def date_simps)
  have "map_of m FOOD = Some 35" "map_of m TRANSPORT = Some 5"
    using vals unfolding k by (simp_all add: example_planner_def date_simps py_sum_def)
  moreover have "map_of m ENTERTAINMENT = None"
    using absent unfolding k by simp
  moreover have "get_category_statistics example_planner (Some (Date 2024 3 31)) (Some (Date 2024 3 11)) = Inr []"
    using C2_get_category_statistics [of example_planner "Date 2024 3 31" "Date 2024 3 11"]
    by (auto simp: date_simps)
  ultimately show ?thesis using m k by blast
qed

subsection \<open>C4: total of a day against the statistics of that day\<close>



text \<open>The rounding of the float model on known values: a literal, ties, an exact sum.\<close>

lemma round_double_examples:
  "float_literal (1 / 10) = Double (3602879701896397 / 2 ^ 55)"
  "Double (2 ^ 53) + Double 1 = Double (2 ^ 53)"
  "Double (2 ^ 53) + Double 3 = Double (2 ^ 53 + 4)"
  "Double 1 + Double 2 = Double 3"
  by code_simp+




subsection \<open>What every planner built by the methods satisfies\<close>

text \<open>
  The constructor stores a budget for each of the seven categories and no method removes
  a key; the stored ids stay pairwise distinct as long as each generated id is new.
\<close>

lemma ExpensePlanner_init_budgets: "p_category_budgets ExpensePlanner_init c = Some 0"
  by (cases c) (simp_all add: ExpensePlanner_init_def initialize_category_budgets_def all_categories_def)

lemma ExpensePlanner_init_expenses: "p_expenses ExpensePlanner_init = []"
  by (simp add: ExpensePlanner_init_def initialize_category_budgets_def all_categories_def)

lemma add_expense_budgets:
  "p_category_budgets (snd (add_expense uid today s descr amt cat dt)) = p_category_budgets s"
  by (simp add: add_expense_def split: sum.splits)

lemma remove_expense_budgets:
  "p_category_budgets (snd (remove_expense s i)) = p_category_budgets s"
  by (simp add: remove_expense_def Let_def split: option.splits)

lemma set_monthly_budget_budgets:
  "p_category_budgets (snd (set_monthly_budget s b)) = p_category_budgets s"
  by (simp add: set_monthly_budget_def)

lemma set_category_budget_budgets:
  "p_category_budgets s c \<noteq> None \<Longrightarrow> p_category_budgets (snd (set_category_budget s cat b)) c \<noteq> None"
  by (simp add: set_category_budget_def split: category_value.splits)

lemma add_expense_distinct:
  "distinct (map id' (p_expenses s)) \<Longrightarrow> uuid_str uid \<notin> id' ` set (p_expenses s) \<Longrightarrow>
   distinct (map id' (p_expenses (snd (add_expense uid today s descr amt cat dt))))"
  by (auto simp: add_expense_def Expense_init_def split: sum.splits category_value.splits if_splits)

lemma remove_expense_distinct:
  "distinct (map id' (p_expenses s)) \<Longrightarrow> distinct (map id' (p_expenses (snd (remove_expense s i))))"
  by (simp add: remove_expense_def Let_def distinct_map_filter split: option.splits)

subsection \<open>C5: the largest expenses\<close>

lemma sorted_reverse_length: "length (sorted_reverse k xs) = length xs"
  by (simp add: sorted_reverse_def)

lemma sorted_reverse_mset: "mset (sorted_reverse k xs) = mset xs"
  by (simp add: sorted_reverse_def)

lemma sorted_reverse_descending: "sorted_wrt (\<lambda>x y. k x \<ge> k y) (sorted_reverse k xs)"
proof -
  have "sorted (map k (sort_key k (rev xs)))" by simp
  then have "sorted_wrt (\<lambda>x y. k x \<le> k y) (sort_key k (rev xs))"
    by (simp add: sorted_map)
  then show ?thesis
    by (simp add: sorted_reverse_def sorted_wrt_rev)
qed

lemma sorted_reverse_stable:
  "filter (\<lambda>x. k x = v) (sorted_reverse k xs) = filter (\<lambda>x. k x = v) xs"
proof -
  have "filter (\<lambda>x. k x = v) (sorted_reverse k xs) = rev (filter (\<lambda>x. k x = v) (sort_key k (rev xs)))"
    by (simp add: sorted_reverse_def rev_filter)
  also have "\<dots> = rev (filter (\<lambda>x. k x = v) (rev xs))"
    by (simp only: sort_key_stable)
  also have "\<dots> = filter (\<lambda>x. k x = v) xs"
    by (simp add: rev_filter)
  finally show ?thesis .
qed

lemma filter_take_prefix: "prefix (filter P (take n ys)) (filter P ys)"
proof -
  have "filter P ys = filter P (take n ys) @ filter P (drop n ys)"
    by (metis append_take_drop_id filter_append)
  then show ?thesis by (simp add: prefix_def)
qed

lemma take_sorted_wrt_top:
  assumes "sorted_wrt R ys" "x \<in> set (take n ys)" "y \<in> set (drop n ys)"
  shows "R x y"
proof -
  have "sorted_wrt R (take n ys @ drop n ys)" using assms(1) by simp
  then show ?thesis using assms(2,3) unfolding sorted_wrt_append by blast
qed

text \<open>
  Claim C5.  \<^verbatim>\<open>get_top_expenses(limit)\<close> fails with "Limit must be positive" when limit \<le> 0.
  Otherwise it returns \<open>min(limit, number of stored expenses)\<close> expenses, sorted by amount in
  non-increasing order; expenses of equal amount keep the relative order in which they are
  stored (for each amount, those returned are an initial segment of the stored expenses
  of that amount); no stored expense left out has a larger amount than one returned; and
  when at most \<open>limit\<close> expenses are stored all of them are returned.
\<close>

theorem C5_get_top_expenses:
  "(limit \<le> 0 \<longrightarrow> get_top_expenses s limit = Inl LimitNotPositive)
   \<and> (0 < limit \<longrightarrow>
        (\<exists>r. get_top_expenses s limit = Inr r
           \<and> length r = min (nat limit) (length (p_expenses s))
           \<and> sorted_wrt (\<lambda>x y. amount x \<ge> amount y) r
           \<and> (\<forall>v. prefix (filter (\<lambda>e. amount e = v) r) (filter (\<lambda>e. amount e = v) (p_expenses s)))
           \<and> mset r \<subseteq># mset (p_expenses s)
           \<and> (\<forall>x \<in># mset (p_expenses s) - mset r. \<forall>y \<in> set r. amount x \<le> amount y)
           \<and> (length (p_expenses s) \<le> nat limit \<longrightarrow> mset r = mset (p_expenses s))))"
proof -
  let ?xs = "p_expenses s"
  let ?ys = "sorted_reverse amount ?xs"
  let ?r = "take (nat limit) ?ys"
  have split: "mset ?xs = mset ?r + mset (drop (nat limit) ?ys)"
    by (metis append_take_drop_id mset_append sorted_reverse_mset)
  have len: "length ?r = min (nat limit) (length ?xs)"
    by (simp add: sorted_reverse_length min.commute)
  have srt: "sorted_wrt (\<lambda>x y. amount x \<ge> amount y) ?r"
    using sorted_reverse_descending [of amount ?xs] by (rule sorted_wrt_take)
  have stab: "prefix (filter (\<lambda>e. amount e = v) ?r) (filter (\<lambda>e. amount e = v) ?xs)" for v
    using filter_take_prefix [of "\<lambda>e. amount e = v" "nat limit" ?ys]
    by (simp add: sorted_reverse_stable)
  have sub: "mset ?r \<subseteq># mset ?xs"
    using split by simp
  have top: "\<forall>x \<in># mset ?xs - mset ?r. \<forall>y \<in> set ?r. amount x \<le> amount y"
  proof (intro ballI)
    fix x y assume "x \<in># mset ?xs - mset ?r" "y \<in> set ?r"
    then have "x \<in> set (drop (nat limit) ?ys)" using split by simp
    with \<open>y \<in> set ?r\<close> show "amount x \<le> amount y"
      using take_sorted_wrt_top [OF sorted_reverse_descending [of amount ?xs], of y "nat limit" x]
      by simp
  qed
  have all: "mset ?r = mset ?xs" if "length ?xs \<le> nat limit"
    using that by (simp add: sorted_reverse_length sorted_reverse_mset)
  have "get_top_expenses s limit = Inr ?r" if "0 < limit"
    using that by (simp add: get_top_expenses_def)
  moreover have "get_top_expenses s limit = Inl LimitNotPositive" if "limit \<le> 0"
    using that by (simp add: get_top_expenses_def)
  ultimately show ?thesis
    using len srt stab sub top all by blast
qed

theorem C5_get_top_expenses_witness:
  "get_top_expenses example_planner (- 1) = Inl LimitNotPositive
   \<and> (\<exists>r. get_top_expenses example_planner 3 = Inr r
          \<and> length r = 3
          \<and> sorted_wrt (\<lambda>x y. amount x \<ge> amount y) r
          \<and> prefix (filter (\<lambda>e. amount e = 5) r)
               [\<lparr>id' = ''b2'', description = ''Bus'', amount = 5, category = TRANSPORT, date = Date 2024 3 11\<rparr>,
                \<lparr>id' = ''d4'', description = ''Movie'', amount = 5, category = ENTERTAINMENT, date = Date 2024 12 20\<rparr>])
   \<and> (\<exists>r. get_top_expenses example_planner 10 = Inr r
          \<and> length r = 4 \<and> mset r = mset (p_expenses example_planner))
   \<and> map id' (projr (get_top_expenses example_planner 3)) = [''c3'', ''a1'', ''b2'']"
proof -
  have neg: "get_top_expenses example_planner (- 1) = Inl LimitNotPositive"
    using C5_get_top_expenses [of "- 1" example_planner] by simp
  from C5_get_top_expenses [of 3 example_planner]
  obtain r where r: "get_top_expenses example_planner 3 = Inr r"
    and "length r = min (nat 3) (length (p_expenses example_planner))"
    and "sorted_wrt (\<lambda>x y. amount x \<ge> amount y) r"
    and "\<forall>v. prefix (filter (\<lambda>e. amount e = v) r) (filter (\<lambda>e. amount e = v) (p_expenses example_planner))"
    by auto
  then have three: "\<exists>r. get_top_expenses example_planner 3 = Inr r
          \<and> length r = 3
          \<and> sorted_wrt (\<lambda>x y. amount x \<ge> amount y) r
          \<and> prefix (filter (\<lambda>e. amount e = 5) r)
               [\<lparr>id' = ''b2'', description = ''Bus'', amount = 5, category = TRANSPORT, date = Date 2024 3 11\<rparr>,
                \<lparr>id' = ''d4'', description = ''Movie'', amount = 5, category = ENTERTAINMENT, date = Date 2024 12 20\<rparr>]"
    by (auto simp: example_planner_def dest!: spec [of _ 5])
  from C5_get_top_expenses [of 10 example_planner]
  have ten: "\<exists>r. get_top_expenses example_planner 10 = Inr r
          \<and> length r = 4 \<and> mset r = mset (p_expenses example_planner)"
    by (auto simp: example_planner_def)
  have "map id' (projr (get_top_expenses example_planner 3)) = [''c3'', ''a1'', ''b2'']"
    by (simp add: get_top_expenses_def sorted_reverse_def example_planner_def)
  with neg three ten show ?thesis by blast
qed

subsection \<open>C6: category budget exceeded\<close>

text \<open>
  Claim C6.  For a category of the enumeration whose stored budget is 0,
  \<^verbatim>\<open>is_category_budget_exceeded\<close> returns false whatever was spent; for a nonzero budget it
  returns true exactly when the sum of the amounts of all stored expenses of that
  category, whatever their dates (added in stored order), is strictly greater than the
  budget.
\<close>

theorem C6_is_category_budget_exceeded:
  "p_category_budgets s c = Some budget \<Longrightarrow>
   (budget = 0 \<longrightarrow> is_category_budget_exceeded s (Member c) = Inr False)
   \<and> (budget \<noteq> 0 \<longrightarrow>
        is_category_budget_exceeded s (Member c) =
          Inr (py_sum (map amount (filter (\<lambda>e. category e = c) (p_expenses s))) > budget))"
  by (simp add: is_category_budget_exceeded_def get_expenses_by_category_def)

theorem C6_is_category_budget_exceeded_witness:
  "is_category_budget_exceeded example_planner (Member TRANSPORT) = Inr False
   \<and> is_category_budget_exceeded example_planner (Member FOOD) = Inr True"
  using C6_is_category_budget_exceeded [of example_planner TRANSPORT 0]
    C6_is_category_budget_exceeded [of example_planner FOOD 50]
  by (simp add: example_planner_def py_sum_def)

subsection \<open>C7 and C8: adding an expense\<close>

lemma dropWhile_all_iff: "(\<forall>x \<in> set (dropWhile P xs). P x) \<longleftrightarrow> dropWhile P xs = []"
proof
  assume all: "\<forall>x \<in> set (dropWhile P xs). P x"
  show "dropWhile P xs = []"
  proof (rule ccontr)
    assume ne: "dropWhile P xs \<noteq> []"
    then have "\<not> P (hd (dropWhile P xs))" by (rule hd_dropWhile)
    moreover have "hd (dropWhile P xs) \<in> set (dropWhile P xs)" using ne by simp
    ultimately show False using all by blast
  qed
next
  assume "dropWhile P xs = []"
  then show "\<forall>x \<in> set (dropWhile P xs). P x" by (simp only: list.set ball_empty)
qed

lemma strip_empty_iff: "strip s = [] \<longleftrightarrow> (\<forall>c \<in> set s. isspace c)"
proof -
  have "strip s = [] \<longleftrightarrow> (\<forall>x \<in> set (dropWhile isspace s). isspace x)"
    by (simp add: strip_def dropWhile_eq_Nil_conv)
  also have "\<dots> \<longleftrightarrow> dropWhile isspace s = []"
    by (rule dropWhile_all_iff)
  also have "\<dots> \<longleftrightarrow> (\<forall>c \<in> set s. isspace c)"
    by (simp add: dropWhile_eq_Nil_conv)
  finally show ?thesis .
qed





text \<open>
  Claim C8.  \<^verbatim>\<open>add_expense\<close> raises exactly when the description is empty or all whitespace,
  or the amount is \<le> 0, or the category is not a member of the enumeration, or the date
  is after today.  The four causes raise four different errors (the first failing check in
  the order description, amount, category, date decides which), and a call that raises
  leaves the planner as it was.
\<close>

theorem C8_add_expense_invalid:
  fixes amt :: "'a::{zero,linorder}"
  shows "((\<exists>e. fst (add_expense uid today s descr amt cat expense_date) = Inl e) \<longleftrightarrow>
      descr = [] \<or> (\<forall>ch \<in> set descr. isspace ch) \<or> amt \<le> 0 \<or> cat = NonMember \<or> today < expense_date)
   \<and> (descr = [] \<or> (\<forall>ch \<in> set descr. isspace ch) \<longrightarrow>
        fst (add_expense uid today s descr amt cat expense_date) = Inl DescriptionEmpty)
   \<and> (\<not> (\<forall>ch \<in> set descr. isspace ch) \<and> amt \<le> 0 \<longrightarrow>
        fst (add_expense uid today s descr amt cat expense_date) = Inl AmountNotPositive)
   \<and> (\<not> (\<forall>ch \<in> set descr. isspace ch) \<and> 0 < amt \<and> cat = NonMember \<longrightarrow>
        fst (add_expense uid today s descr amt cat expense_date) = Inl InvalidCategory)
   \<and> (\<not> (\<forall>ch \<in> set descr. isspace ch) \<and> 0 < amt \<and> cat \<noteq> NonMember \<and> today < expense_date \<longrightarrow>
        fst (add_expense uid today s descr amt cat expense_date) = Inl FutureDate)
   \<and> ((\<exists>e. fst (add_expense uid today s descr amt cat expense_date) = Inl e) \<longrightarrow>
        snd (add_expense uid today s descr amt cat expense_date) = s)"
  by (cases cat) (auto simp: add_expense_def Expense_init_def strip_empty_iff)

theorem C8_add_expense_invalid_witness:
  "add_expense 5 (Date 2024 12 31) example_planner [] 100 (Member FOOD) (Date 2024 12 31)
     = (Inl DescriptionEmpty, example_planner)
   \<and> add_expense 5 (Date 2024 12 31) example_planner ''  '' 100 (Member FOOD) (Date 2024 12 31)
     = (Inl DescriptionEmpty, example_planner)
   \<and> add_expense 5 (Date 2024 12 31) example_planner ''Tea'' (- 50) (Member FOOD) (Date 2024 12 31)
     = (Inl AmountNotPositive, example_planner)
   \<and> add_expense 5 (Date 2024 12 31) example_planner ''Tea'' 100 NonMember (Date 2024 12 31)
     = (Inl InvalidCategory, example_planner)
   \<and> add_expense 5 (Date 2024 12 31) example_planner ''Tea'' 100 (Member FOOD) (Date 2025 1 1)
     = (Inl FutureDate, example_planner)
   \<and> (\<nexists>e. fst (add_expense 5 (Date 2024 12 31) example_planner ''Tea'' 100 (Member FOOD) (Date 2024 12 31))
     = Inl e)"
proof -
  have sp: "isspace CHR '' ''" "\<not> isspace CHR ''T''" "\<not> isspace CHR ''e''" "\<not> isspace CHR ''a''"
    by (simp_all add: isspace_def)
  note th = C8_add_expense_invalid [where uid = 5 and today = "Date 2024 12 31"
      and s = example_planner]
  have "add_expense 5 (Date 2024 12 31) example_planner [] 100 (Member FOOD) (Date 2024 12 31)
     = (Inl DescriptionEmpty, example_planner)"
    using th [where descr = "[]" and amt = 100 and cat = "Member FOOD" and expense_date = "Date 2024 12 31"]
    by (simp add: prod_eq_iff)
  moreover have "add_expense 5 (Date 2024 12 31) example_planner ''  '' 100 (Member FOOD) (Date 2024 12 31)
     = (Inl DescriptionEmpty, example_planner)"
    using th [where descr = "''  ''" and amt = 100 and cat = "Member FOOD" and expense_date = "Date 2024 12 31"]
    by (simp add: prod_eq_iff sp)
  moreover have "add_expense 5 (Date 2024 12 31) example_planner ''Tea'' (- 50) (Member FOOD) (Date 2024 12 31)
     = (Inl AmountNotPositive, example_planner)"
    using th [where descr = "''Tea''" and amt = "- 50" and cat = "Member FOOD" and expense_date = "Date 2024 12 31"]
    by (simp add: prod_eq_iff sp)
  moreover have "add_expense 5 (Date 2024 12 31) example_planner ''Tea'' 100 NonMember (Date 2024 12 31)
     = (Inl InvalidCategory, example_planner)"
    using th [where descr = "''Tea''" and amt = 100 and cat = NonMember and expense_date = "Date 2024 12 31"]
    by (simp add: prod_eq_iff sp)
  moreover have "add_expense 5 (Date 2024 12 31) example_planner ''Tea'' 100 (Member FOOD) (Date 2025 1 1)
     = (Inl FutureDate, example_planner)"
    using th [where descr = "''Tea''" and amt = 100 and cat = "Member FOOD" and expense_date = "Date 2025 1 1"]
    by (simp add: prod_eq_iff sp date_simps)
  moreover have "\<nexists>e. fst (add_expense 5 (Date 2024 12 31) example_planner ''Tea'' 100 (Member FOOD) (Date 2024 12 31))
     = Inl e"
    using th [where descr = "''Tea''" and amt = 100 and cat = "Member FOOD" and expense_date = "Date 2024 12 31"]
    by (simp add: sp date_simps)
  ultimately show ?thesis by blast
qed

subsection \<open>C9: removing an expense\<close>

text \<open>
  Claim C9.  \<^verbatim>\<open>remove_expense(id)\<close> fails with "Expense ID cannot be empty" when the id is
  \<^verbatim>\<open>None\<close> or empty.  For a stored id (ids being pairwise distinct) it returns true and
  removes the one expense with that id, every other expense staying in place, so the list
  is shorter by one; a second call with the same id returns false and changes nothing.
  For an id that is not stored it returns false and changes nothing.
\<close>

theorem C9_remove_expense:
  "remove_expense s None = (Inl EmptyId, s)
   \<and> remove_expense s (Some []) = (Inl EmptyId, s)
   \<and> (i \<noteq> [] \<and> distinct (map id' (p_expenses s)) \<and> i \<in> id' ` set (p_expenses s) \<longrightarrow>
        (\<exists>s' xs e ys.
            remove_expense s (Some i) = (Inr True, s')
          \<and> p_expenses s = xs @ e # ys \<and> id' e = i
          \<and> s' = s\<lparr>p_expenses := xs @ ys\<rparr>
          \<and> length (p_expenses s') + 1 = length (p_expenses s)
          \<and> remove_expense s' (Some i) = (Inr False, s')))
   \<and> (i \<noteq> [] \<and> i \<notin> id' ` set (p_expenses s) \<longrightarrow> remove_expense s (Some i) = (Inr False, s))"
proof -
  have absent: "remove_expense t (Some i) = (Inr False, t)"
    if "i \<noteq> []" "i \<notin> id' ` set (p_expenses t)" for t
  proof -
    have "filter (\<lambda>exp. id' exp \<noteq> i) (p_expenses t) = p_expenses t"
      using that(2) by (auto simp: filter_id_conv)
    then show ?thesis using that(1) by (simp add: remove_expense_def)
  qed
  have present: "\<exists>s' xs e ys.
            remove_expense s (Some i) = (Inr True, s')
          \<and> p_expenses s = xs @ e # ys \<and> id' e = i
          \<and> s' = s\<lparr>p_expenses := xs @ ys\<rparr>
          \<and> length (p_expenses s') + 1 = length (p_expenses s)
          \<and> remove_expense s' (Some i) = (Inr False, s')"
    if ne: "i \<noteq> []" and dist: "distinct (map id' (p_expenses s))" and mem: "i \<in> id' ` set (p_expenses s)"
  proof -
    from mem obtain e where "e \<in> set (p_expenses s)" "id' e = i" by auto
    then obtain xs ys where split: "p_expenses s = xs @ e # ys"
      by (auto simp: in_set_conv_decomp)
    from dist split \<open>id' e = i\<close> have nx: "i \<notin> id' ` set xs" and ny: "i \<notin> id' ` set ys"
      by auto
    have fx: "filter (\<lambda>exp. id' exp \<noteq> i) xs = xs" using nx by (auto simp: filter_id_conv)
    have fy: "filter (\<lambda>exp. id' exp \<noteq> i) ys = ys" using ny by (auto simp: filter_id_conv)
    let ?s' = "s\<lparr>p_expenses := xs @ ys\<rparr>"
    have r1: "remove_expense s (Some i) = (Inr True, ?s')"
      using ne \<open>id' e = i\<close> by (simp add: remove_expense_def split fx fy)
    have "i \<notin> id' ` set (p_expenses ?s')" using nx ny by auto
    then have r2: "remove_expense ?s' (Some i) = (Inr False, ?s')"
      using ne by (rule absent [rotated])
    show ?thesis
      using r1 r2 split \<open>id' e = i\<close> by (intro exI [of _ ?s'] exI [of _ xs] exI [of _ e] exI [of _ ys]) simp
  qed
  show ?thesis
    using absent [of s] present by (simp add: remove_expense_def)
qed

theorem C9_remove_expense_witness:
  "remove_expense example_planner None = (Inl EmptyId, example_planner)
   \<and> remove_expense example_planner (Some []) = (Inl EmptyId, example_planner)
   \<and> (\<exists>s'. remove_expense example_planner (Some ''b2'') = (Inr True, s')
          \<and> length (p_expenses s') = 3
          \<and> remove_expense s' (Some ''b2'') = (Inr False, s'))
   \<and> remove_expense example_planner (Some ''zz'') = (Inr False, example_planner)"
proof -
  have d: "distinct (map id' (p_expenses example_planner))"
    and m: "''b2'' \<in> id' ` set (p_expenses example_planner)"
    and n: "''zz'' \<notin> id' ` set (p_expenses example_planner)"
    and l: "length (p_expenses example_planner) = 4"
    by (simp_all add: example_planner_def)
  have "\<exists>s'. remove_expense example_planner (Some ''b2'') = (Inr True, s')
          \<and> length (p_expenses s') = 3
          \<and> remove_expense s' (Some ''b2'') = (Inr False, s')"
    using C9_remove_expense [of example_planner "''b2''"] d m l by auto
  moreover have "remove_expense example_planner (Some ''zz'') = (Inr False, example_planner)"
    using C9_remove_expense [of example_planner "''zz''"] n by simp
  moreover have "remove_expense example_planner None = (Inl EmptyId, example_planner)"
    "remove_expense example_planner (Some []) = (Inl EmptyId, example_planner)"
    using C9_remove_expense [of example_planner "''zz''"] by simp_all
  ultimately show ?thesis by blast
qed

subsection \<open>C10: the reading methods change nothing\<close>








end
